theory Spec2Isabelle
  imports Main
begin

chapter \<open>flask-restle\<close>

text \<open>
  A shallow embedding of \<^verbatim>\<open>flask_restle/__init__.py\<close>: the error type \<^verbatim>\<open>api_error\<close>, the
  dispatcher \<^verbatim>\<open>API\<close> with \<^verbatim>\<open>dispatch_request\<close> and \<^verbatim>\<open>build_response\<close>, the registrar
  \<^verbatim>\<open>register_api\<close>, the method \<^verbatim>\<open>default\<close> of \<^verbatim>\<open>CustomJSONEncoder\<close> and the patterns of the
  URL converters. Raising is a result \<open>Inl\<close>; a method that may write to its instance
  returns the instance with its result. Flask, Werkzeug and \<^verbatim>\<open>json\<close> are not part of the
  module: what it calls of them is a parameter, and \<^verbatim>\<open>re\<close> is modelled for the syntax the
  patterns use.
\<close>

section \<open>Python values seen by flask-restle\<close>

text \<open>
  The constructor arguments of \<^verbatim>\<open>current_app.response_class(body, status=..., mimetype=...,
  headers=...)\<close>, as \<^verbatim>\<open>build_response\<close> and \<^verbatim>\<open>api_error.response\<close> pass them. A body or
  MIME type of \<^verbatim>\<open>None\<close> is \<open>None\<close>.
\<close>

record response =
  response_body :: "string option"
  response_code :: int
  response_type :: "string option"
  response_hdrs :: "(string \<times> string) list"

text \<open>
  A Python value. An object carries its exact runtime class (what \<^verbatim>\<open>type(obj)\<close> returns),
  the proper superclasses of that class, what \<^verbatim>\<open>getattr(obj, "json_serializer", None)\<close>
  finds, and the data the library reads from it: the members of a set in iteration order,
  the text \<^verbatim>\<open>isoformat()\<close> of a timestamp returns, or the contents of a response.
\<close>

datatype pyval =
    PNone
  | PBool bool
  | PInt int
  | PStr string
  | PList "pyval list"
  | PDict "(string \<times> pyval) list"
  | PObject string "string list" pyattr pydata
and pyattr =
    Absent
  | NotCallable
  | Callable "string + pyval"
and pydata =
    NoData
  | Members "pyval list"
  | IsoFormat string
  | ResponseData response

text \<open>\<^verbatim>\<open>type(v)\<close>, by the name of the class.\<close>

fun py_type :: "pyval \<Rightarrow> string" where
  "py_type PNone = ''NoneType''"
| "py_type (PBool b) = ''bool''"
| "py_type (PInt i) = ''int''"
| "py_type (PStr s) = ''str''"
| "py_type (PList xs) = ''list''"
| "py_type (PDict kvs) = ''dict''"
| "py_type (PObject c bases a d) = c"

text \<open>\<^verbatim>\<open>isinstance(v, c)\<close>: the class of \<open>v\<close> is \<open>c\<close> or one of its subclasses.\<close>

fun isinstance :: "pyval \<Rightarrow> string \<Rightarrow> bool" where
  "isinstance (PObject c bases a d) k = (k = c \<or> k \<in> set bases)"
| "isinstance v k = (k = py_type v)"

fun json_serializer_attr :: "pyval \<Rightarrow> pyattr" where
  "json_serializer_attr (PObject c bases a d) = a"
| "json_serializer_attr v = Absent"

fun py_data :: "pyval \<Rightarrow> pydata" where
  "py_data (PObject c bases a d) = d"
| "py_data v = NoData"

text \<open>\<^verbatim>\<open>str.lower()\<close> on the ASCII letters an HTTP method is written in.\<close>

definition lower_char :: "char \<Rightarrow> char" where
  "lower_char c =
     (case map_of (zip ''ABCDEFGHIJKLMNOPQRSTUVWXYZ'' ''abcdefghijklmnopqrstuvwxyz'') c of
        Some l \<Rightarrow> l
      | None \<Rightarrow> c)"

definition lower :: "string \<Rightarrow> string" where
  "lower s = map lower_char s"

section \<open>The error type\<close>

text \<open>
  \<^verbatim>\<open>class api_error(Exception)\<close>: the class attribute \<^verbatim>\<open>status_code = 400\<close> stands unless
  the constructor is given a status code that is not \<^verbatim>\<open>None\<close>.
\<close>

record api_error =
  message :: string
  status_code :: int
  payload :: "(string \<times> pyval) list option"

definition api_error_init :: "string \<Rightarrow> int option \<Rightarrow> (string \<times> pyval) list option \<Rightarrow> api_error" where
  "api_error_init msg code pl =
     \<lparr> message = msg,
       status_code = (case code of None \<Rightarrow> 400 | Some c \<Rightarrow> c),
       payload = pl \<rparr>"

text \<open>
  \<^verbatim>\<open>rv = dict(self.payload or ()); rv['error_message'] = self.message\<close>. A payload that is
  \<^verbatim>\<open>None\<close> or empty is falsy, and \<^verbatim>\<open>dict(())\<close> is the empty dictionary. Assigning a key that
  is present replaces its value in place; a new key goes last.
\<close>

fun dict_set :: "(string \<times> pyval) list \<Rightarrow> string \<Rightarrow> pyval \<Rightarrow> (string \<times> pyval) list" where
  "dict_set [] k v = [(k, v)]"
| "dict_set ((k', v') # kvs) k v =
     (if k' = k then (k, v) # kvs else (k', v') # dict_set kvs k v)"

definition to_dict :: "api_error \<Rightarrow> (string \<times> pyval) list" where
  "to_dict self =
     (let rv = (case payload self of
                  None \<Rightarrow> []
                | Some p \<Rightarrow> if p = [] then [] else p)
      in dict_set rv ''error_message'' (PStr (message self)))"

text \<open>What a call can raise.\<close>

datatype pyerror =
    ApiError api_error
  | TypeError string
  | KeyError string
  | Raised string

section \<open>The host framework\<close>

text \<open>
  What the module takes from Flask and Werkzeug, none of it code of this repository:
  the class \<^verbatim>\<open>current_app.response_class\<close> with its proper superclasses,
  \<^verbatim>\<open>flask.json.dumps(v, indent=4, sort_keys=True)\<close>, and the \<^verbatim>\<open>default\<close> method of the base
  class \<^verbatim>\<open>json.JSONEncoder\<close>.
\<close>

record flask_app =
  response_class :: string
  response_class_bases :: "string list"
  json_dumps :: "pyval \<Rightarrow> pyerror + string"
  JSONEncoder_default :: "pyval \<Rightarrow> pyerror + pyval"

text \<open>The request of the current context: \<^verbatim>\<open>request.method\<close>, \<^verbatim>\<open>request.data\<close>, \<^verbatim>\<open>request.mimetype\<close>.\<close>

record request =
  request_method :: string
  request_data :: string
  request_mimetype :: string

definition BaseResponse :: string where
  "BaseResponse = ''werkzeug.wrappers.BaseResponse''"

section \<open>The resource dispatcher\<close>

text \<open>
  The attributes of \<^verbatim>\<open>class API(View)\<close> that the dispatcher reads and writes. The field
  \<open>self_method\<close> is the attribute \<^verbatim>\<open>method\<close>; \<^verbatim>\<open>decorators\<close> is read by the framework only.
\<close>

record API =
  self_method :: "string option"
  response_headers :: "(string \<times> string) list"
  response_status :: "int option"
  response_mimetype :: string
  response_status_defaults :: "(string \<times> int) list"

text \<open>The attribute values of the class body.\<close>

definition API_class :: API where
  "API_class =
     \<lparr> self_method = None,
       response_headers = [],
       response_status = None,
       response_mimetype = ''application/json'',
       response_status_defaults =
         [(''delete'', 200), (''get'', 200), (''patch'', 200), (''post'', 200), (''put'', 201)] \<rparr>"

text \<open>
  The positional and keyword arguments of a call, and the methods a resource class
  defines: a handler or the hook receives the instance and the arguments, and returns a
  value or raises, leaving the instance as it wrote it.
\<close>

type_synonym pyargs = "pyval list \<times> (string \<times> pyval) list"

type_synonym handler = "API \<Rightarrow> pyargs \<Rightarrow> (pyerror + pyval) \<times> API"

text \<open>
  \<open>getattr_handler\<close> is \<^verbatim>\<open>getattr(self, name, None)\<close> for the five method names, \<open>None\<close>
  when the attribute is missing or falsy; \<open>dispatch_init_of\<close> is the method
  \<^verbatim>\<open>self.dispatch_init\<close> resolves to.
\<close>

record resource =
  getattr_handler :: "string \<Rightarrow> handler option"
  dispatch_init_of :: "API \<Rightarrow> pyargs \<Rightarrow> (pyerror + pyargs) \<times> API"

text \<open>\<^verbatim>\<open>API.dispatch_init\<close> as the base class defines it.\<close>

definition dispatch_init :: "API \<Rightarrow> pyargs \<Rightarrow> (pyerror + pyargs) \<times> API" where
  "dispatch_init self args = (Inr args, self)"

text \<open>Python's truth value of the status override and of a body.\<close>

fun truthy_status :: "int option \<Rightarrow> bool" where
  "truthy_status None = False"
| "truthy_status (Some s) = (s \<noteq> 0)"

fun truthy_body :: "string option \<Rightarrow> bool" where
  "truthy_body None = False"
| "truthy_body (Some b) = (b \<noteq> [])"

text \<open>\<^verbatim>\<open>d[k]\<close> on a dictionary: \<^verbatim>\<open>KeyError\<close> when the key is missing.\<close>

definition dict_get :: "(string \<times> int) list \<Rightarrow> string \<Rightarrow> pyerror + int" where
  "dict_get d k = (case map_of d k of None \<Rightarrow> Inl (KeyError k) | Some v \<Rightarrow> Inr v)"

text \<open>
  \<^verbatim>\<open>API.build_response\<close>. The default of the method is looked up only when the status
  override is falsy, as \<^verbatim>\<open>or\<close> evaluates its right operand.
\<close>

definition build_response :: "flask_app \<Rightarrow> request \<Rightarrow> API \<Rightarrow> string option \<Rightarrow> pyerror + pyval" where
  "build_response app req self body =
     (let mimetype = (if \<not> truthy_body body then None else Some (response_mimetype self)) in
      case (if truthy_status (response_status self)
            then Inr (case response_status self of Some s \<Rightarrow> s | None \<Rightarrow> 0)
            else dict_get (response_status_defaults self) (lower (request_method req))) of
        Inl e \<Rightarrow> Inl e
      | Inr status0 \<Rightarrow>
          (let status = (if status0 = 200 \<and> \<not> truthy_body body then 204 else status0) in
           Inr (PObject (response_class app) (response_class_bases app) Absent
                  (ResponseData \<lparr> response_body = body, response_code = status,
                     response_type = mimetype, response_hdrs = response_headers self \<rparr>))))"

text \<open>
  \<^verbatim>\<open>API.dispatch_request\<close>. The result pairs what the call returns or raises with the
  instance as the call leaves it.
\<close>

definition dispatch_request :: "flask_app \<Rightarrow> request \<Rightarrow> resource \<Rightarrow> API \<Rightarrow> pyargs \<Rightarrow> (pyerror + pyval) \<times> API" where
  "dispatch_request app req cls self0 args =
     (let self = self0\<lparr> self_method := Some (lower (request_method req)) \<rparr> in
      if request_data req \<noteq> [] \<and> request_mimetype req \<noteq> ''application/json''
      then (Inl (ApiError (api_error_init
              (''Request payload mimetype must be 'application/json'' @ [CHR 0x27]) (Some 415) None)), self)
      else
        (let meth = getattr_handler cls (lower (request_method req)) in
         if lower (request_method req) \<notin> set [''get'', ''put'', ''post'', ''delete'', ''patch'']
            \<or> meth = None
         then (Inl (ApiError (api_error_init ''HTTP method is not supported'' (Some 405) None)), self)
         else
           (case dispatch_init_of cls self args of
              (Inl e, self1) \<Rightarrow> (Inl e, self1)
            | (Inr args1, self1) \<Rightarrow>
                (case (case meth of Some h \<Rightarrow> h self1 args1
                                  | None \<Rightarrow> (Inl (TypeError ''not callable''), self1)) of
                   (Inl e, self2) \<Rightarrow> (Inl e, self2)
                 | (Inr output, self2) \<Rightarrow>
                     if py_type output = BaseResponse then (Inr output, self2)
                     else
                       (case (if output \<noteq> PNone
                              then (case json_dumps app output of
                                      Inl e \<Rightarrow> Inl e | Inr s \<Rightarrow> Inr (Some s))
                              else Inr None) of
                          Inl e \<Rightarrow> (Inl e, self2)
                        | Inr body \<Rightarrow> (build_response app req self2 body, self2))))))"

section \<open>The route registrar\<close>

text \<open>
  A blueprint is the list of the \<^verbatim>\<open>add_url_rule\<close> calls made on it, in order: the rule, the
  \<^verbatim>\<open>defaults\<close> argument (\<open>None\<close> when the call passes none), the view function and the
  methods. \<^verbatim>\<open>view.as_view(endpoint)\<close> is the view function of that class under that name.
\<close>

record url_rule =
  rule :: string
  defaults :: "(string \<times> pyval) list option"
  view_func :: "string \<times> string"
  methods :: "string list"

definition as_view :: "string \<Rightarrow> string \<Rightarrow> string \<times> string" where
  "as_view view endpoint = (view, endpoint)"

definition add_url_rule ::
  "url_rule list \<Rightarrow> string \<Rightarrow> (string \<times> pyval) list option \<Rightarrow> string \<times> string \<Rightarrow> string list
     \<Rightarrow> url_rule list" where
  "add_url_rule blueprint r d f ms =
     blueprint @ [\<lparr> rule = r, defaults = d, view_func = f, methods = ms \<rparr>]"

text \<open>
  \<^verbatim>\<open>register_api(blueprint, view, endpoint, url, pk='id', pk_type='int')\<close>; the third rule is
  \<^verbatim>\<open>'%s<%s:%s>' % (url, pk_type, pk)\<close>.
\<close>

definition register_api ::
  "url_rule list \<Rightarrow> string \<Rightarrow> string \<Rightarrow> string \<Rightarrow> string \<Rightarrow> string \<Rightarrow> url_rule list" where
  "register_api blueprint view endpoint url pk pk_type =
     (let f = as_view view endpoint;
          b1 = add_url_rule blueprint url (Some [(pk, PNone)]) f [''GET''];
          b2 = add_url_rule b1 url None f [''POST'']
      in add_url_rule b2 (url @ ''<'' @ pk_type @ '':'' @ pk @ ''>'') None f
           [''GET'', ''PUT'', ''DELETE''])"

text \<open>The method and URL pairs a list of rules answers.\<close>

definition routes :: "url_rule list \<Rightarrow> (string \<times> string) list" where
  "routes blueprint = concat (map (\<lambda>r. map (\<lambda>m. (m, rule r)) (methods r)) blueprint)"

section \<open>The JSON encoder\<close>

text \<open>
  \<^verbatim>\<open>callable(json_serializer)\<close>, \<^verbatim>\<open>obj.json_serializer()\<close>, \<^verbatim>\<open>list(obj)\<close> and
  \<^verbatim>\<open>obj.isoformat()\<close> on the objects of the model: a call raises what the callable raises,
  \<^verbatim>\<open>list\<close> raises on an object that cannot be iterated, and a missing method is an
  \<^verbatim>\<open>AttributeError\<close>.
\<close>

fun callable :: "pyattr \<Rightarrow> bool" where
  "callable (Callable r) = True"
| "callable a = False"

fun call_json_serializer :: "pyval \<Rightarrow> pyerror + pyval" where
  "call_json_serializer obj =
     (case json_serializer_attr obj of
        Callable (Inr v) \<Rightarrow> Inr v
      | Callable (Inl e) \<Rightarrow> Inl (Raised e)
      | NotCallable \<Rightarrow> Inl (TypeError ''object is not callable'')
      | Absent \<Rightarrow> Inl (Raised ''AttributeError''))"

fun py_list :: "pyval \<Rightarrow> pyerror + pyval" where
  "py_list obj =
     (case py_data obj of
        Members xs \<Rightarrow> Inr (PList xs)
      | _ \<Rightarrow> Inl (TypeError ''object is not iterable''))"

fun isoformat :: "pyval \<Rightarrow> pyerror + pyval" where
  "isoformat obj =
     (case py_data obj of
        IsoFormat s \<Rightarrow> Inr (PStr s)
      | _ \<Rightarrow> Inl (Raised ''AttributeError''))"

text \<open>\<^verbatim>\<open>CustomJSONEncoder.default\<close>.\<close>

definition CustomJSONEncoder_default :: "flask_app \<Rightarrow> pyval \<Rightarrow> pyerror + pyval" where
  "CustomJSONEncoder_default app obj =
     (if callable (json_serializer_attr obj) then call_json_serializer obj
      else if py_type obj = ''set'' then py_list obj
      else if py_type obj = ''arrow.arrow.Arrow'' then isoformat obj
      else JSONEncoder_default app obj)"

section \<open>The URL converters\<close>

text \<open>
  The converters hand Werkzeug a regular expression as a string. What follows reads such a
  string as Python's \<^verbatim>\<open>re\<close> module does, for the syntax the three patterns of the source
  use: literals, escaped punctuation, \<^verbatim>\<open>\d\<close>, character classes with ranges and negation,
  groups, alternation, \<^verbatim>\<open>+\<close> and \<^verbatim>\<open>{n}\<close>. A pattern outside that syntax is not compiled
  (\<open>None\<close>). The characters are bytes, so \<^verbatim>\<open>\d\<close> is an ASCII digit.
\<close>

text \<open>
  The syntax tree: a character class holds single characters and ranges and may be
  negated; \<open>Repeat n r\<close> is \<^verbatim>\<open>r{n}\<close>. \<open>Fail\<close> and \<open>Eps\<close> are not written in a pattern;
  they are the expressions that match nothing and the empty string.
\<close>

datatype cset_item = Single char | Range char char

datatype rexp =
    Fail
  | Eps
  | Lit char
  | Digit
  | Class bool "cset_item list"
  | Seq rexp rexp
  | Alt rexp rexp
  | Plus rexp
  | Repeat nat rexp
  | Group rexp

text \<open>
  The parser reads the pattern one character at a time. Its state is a mode (inside an
  escape, a class or a count, or none of these), the alternatives and the sequence of the
  group being read, both newest first, and the same for the groups around it.
\<close>

datatype pending = NoPend | Pend char | PendDash char

datatype pmode =
    Normal
  | Escape
  | ClassStart
  | ClassNeg
  | ClassBody bool "cset_item list" pending
  | Count "nat option"

type_synonym frame = "rexp list \<times> rexp list"

type_synonym pstate = "pmode \<times> frame \<times> frame list"

fun mk_seq :: "rexp list \<Rightarrow> rexp" where
  "mk_seq [] = Eps"
| "mk_seq [x] = x"
| "mk_seq (x # xs) = Seq x (mk_seq xs)"

fun mk_alt :: "rexp list \<Rightarrow> rexp" where
  "mk_alt [] = Fail"
| "mk_alt [x] = x"
| "mk_alt (x # xs) = Alt x (mk_alt xs)"

definition close_frame :: "frame \<Rightarrow> rexp" where
  "close_frame f = mk_alt (rev (mk_seq (rev (snd f)) # fst f))"

definition push_atom :: "rexp \<Rightarrow> frame \<Rightarrow> frame" where
  "push_atom a f = (fst f, a # snd f)"

text \<open>
  A quantifier applies to the last item read; \<^verbatim>\<open>re\<close> refuses one with nothing before it
  and one that follows another quantifier.
\<close>

fun quantify :: "(rexp \<Rightarrow> rexp) \<Rightarrow> frame \<Rightarrow> frame option" where
  "quantify q (alts, []) = None"
| "quantify q (alts, Plus r # xs) = None"
| "quantify q (alts, Repeat n r # xs) = None"
| "quantify q (alts, x # xs) = Some (alts, q x # xs)"

definition digit_val :: "char \<Rightarrow> nat option" where
  "digit_val c = map_of (zip ''0123456789'' [0 ..< 10]) c"

definition is_alnum :: "char \<Rightarrow> bool" where
  "is_alnum c = (c \<in> set ''abcdefghijklmnopqrstuvwxyzABCDEFGHIJKLMNOPQRSTUVWXYZ0123456789'')"

definition first_in_class :: "bool \<Rightarrow> char \<Rightarrow> pmode option" where
  "first_in_class neg c =
     (if c = CHR '']'' \<or> c = CHR 0x5C then None else Some (ClassBody neg [] (Pend c)))"

fun close_class :: "cset_item list \<Rightarrow> pending \<Rightarrow> cset_item list" where
  "close_class items NoPend = rev items"
| "close_class items (Pend a) = rev (Single a # items)"
| "close_class items (PendDash a) = rev (Single (CHR ''-'') # Single a # items)"

fun parse_step :: "pstate \<Rightarrow> char \<Rightarrow> pstate option" where
  "parse_step (Normal, cur, stack) c =
     (if c = CHR ''('' then Some (Normal, ([], []), cur # stack)
      else if c = CHR '')'' then
        (case stack of
           [] \<Rightarrow> None
         | parent # rest \<Rightarrow> Some (Normal, push_atom (Group (close_frame cur)) parent, rest))
      else if c = CHR ''|'' then Some (Normal, (mk_seq (rev (snd cur)) # fst cur, []), stack)
      else if c = CHR ''+'' then map_option (\<lambda>f. (Normal, f, stack)) (quantify Plus cur)
      else if c = CHR ''{'' then Some (Count None, cur, stack)
      else if c = CHR ''['' then Some (ClassStart, cur, stack)
      else if c = CHR 0x5C then Some (Escape, cur, stack)
      else if c \<in> set ''.^$*?'' then None
      else Some (Normal, push_atom (Lit c) cur, stack))"
| "parse_step (Escape, cur, stack) c =
     (if c = CHR ''d'' then Some (Normal, push_atom Digit cur, stack)
      else if is_alnum c then None
      else Some (Normal, push_atom (Lit c) cur, stack))"
| "parse_step (ClassStart, cur, stack) c =
     (if c = CHR ''^'' then Some (ClassNeg, cur, stack)
      else map_option (\<lambda>m. (m, cur, stack)) (first_in_class False c))"
| "parse_step (ClassNeg, cur, stack) c =
     map_option (\<lambda>m. (m, cur, stack)) (first_in_class True c)"
| "parse_step (ClassBody neg items pend, cur, stack) c =
     (if c = CHR 0x5C then None
      else if c = CHR '']''
      then Some (Normal, push_atom (Class neg (close_class items pend)) cur, stack)
      else
        (case pend of
           NoPend \<Rightarrow> Some (ClassBody neg items (Pend c), cur, stack)
         | Pend a \<Rightarrow>
             if c = CHR ''-'' then Some (ClassBody neg items (PendDash a), cur, stack)
             else Some (ClassBody neg (Single a # items) (Pend c), cur, stack)
         | PendDash a \<Rightarrow>
             if (of_char a :: nat) \<le> of_char c
             then Some (ClassBody neg (Range a c # items) NoPend, cur, stack)
             else None))"
| "parse_step (Count n, cur, stack) c =
     (case digit_val c of
        Some d \<Rightarrow> Some (Count (Some (case n of None \<Rightarrow> d | Some k \<Rightarrow> 10 * k + d)), cur, stack)
      | None \<Rightarrow>
          (case n of
             None \<Rightarrow> None
           | Some k \<Rightarrow>
               if c = CHR ''}'' then map_option (\<lambda>f. (Normal, f, stack)) (quantify (Repeat k) cur)
               else None))"

text \<open>
  \<^verbatim>\<open>re.compile\<close>: \<open>None\<close> when the pattern ends inside a group, class, escape or count,
  or uses syntax outside the fragment.
\<close>

fun parse_from :: "pstate \<Rightarrow> string \<Rightarrow> pstate option" where
  "parse_from st [] = Some st"
| "parse_from st (c # cs) =
     (case parse_step st c of None \<Rightarrow> None | Some st' \<Rightarrow> parse_from st' cs)"

definition re_compile :: "string \<Rightarrow> rexp option" where
  "re_compile p =
     (case parse_from (Normal, ([], []), []) p of
        Some (Normal, cur, []) \<Rightarrow> Some (close_frame cur)
      | _ \<Rightarrow> None)"

text \<open>
  Matching by derivatives: \<open>nullable r\<close> says that \<open>r\<close> matches the empty string, and
  \<open>deriv c r\<close> matches what \<open>r\<close> matches after a leading \<open>c\<close>. \<^verbatim>\<open>re.fullmatch(p, s)\<close> is
  not \<^verbatim>\<open>None\<close> exactly when the whole of \<open>s\<close> is matched.
\<close>

fun in_item :: "char \<Rightarrow> cset_item \<Rightarrow> bool" where
  "in_item c (Single a) = (c = a)"
| "in_item c (Range a b) = ((of_char a :: nat) \<le> of_char c \<and> (of_char c :: nat) \<le> of_char b)"

fun nullable :: "rexp \<Rightarrow> bool" where
  "nullable Fail = False"
| "nullable Eps = True"
| "nullable (Lit a) = False"
| "nullable Digit = False"
| "nullable (Class neg items) = False"
| "nullable (Seq r s) = (nullable r \<and> nullable s)"
| "nullable (Alt r s) = (nullable r \<or> nullable s)"
| "nullable (Plus r) = nullable r"
| "nullable (Repeat n r) = (n = 0 \<or> nullable r)"
| "nullable (Group r) = nullable r"

fun repeat_deriv :: "rexp \<Rightarrow> bool \<Rightarrow> rexp \<Rightarrow> nat \<Rightarrow> rexp" where
  "repeat_deriv d nl r 0 = Fail"
| "repeat_deriv d nl r (Suc k) =
     (if nl then Alt (Seq d (Repeat k r)) (repeat_deriv d nl r k) else Seq d (Repeat k r))"

fun deriv :: "char \<Rightarrow> rexp \<Rightarrow> rexp" where
  "deriv c Fail = Fail"
| "deriv c Eps = Fail"
| "deriv c (Lit a) = (if c = a then Eps else Fail)"
| "deriv c Digit = (if c \<in> set ''0123456789'' then Eps else Fail)"
| "deriv c (Class neg items) = (if list_ex (in_item c) items \<noteq> neg then Eps else Fail)"
| "deriv c (Seq r s) =
     (if nullable r then Alt (Seq (deriv c r) s) (deriv c s) else Seq (deriv c r) s)"
| "deriv c (Alt r s) = Alt (deriv c r) (deriv c s)"
| "deriv c (Plus r) = Seq (deriv c r) (Alt Eps (Plus r))"
| "deriv c (Repeat n r) = repeat_deriv (deriv c r) (nullable r) r n"
| "deriv c (Group r) = deriv c r"

definition fullmatch_rexp :: "rexp \<Rightarrow> string \<Rightarrow> bool" where
  "fullmatch_rexp r s = nullable (fold deriv s r)"

definition re_fullmatch :: "string \<Rightarrow> string \<Rightarrow> bool option" where
  "re_fullmatch p s = map_option (\<lambda>r. fullmatch_rexp r s) (re_compile p)"

text \<open>
  The language of an expression, the usual meaning of a regular expression, against
  which the matcher is checked below.
\<close>

definition conc :: "string set \<Rightarrow> string set \<Rightarrow> string set" where
  "conc A B = {u @ v | u v. u \<in> A \<and> v \<in> B}"

fun pow :: "string set \<Rightarrow> nat \<Rightarrow> string set" where
  "pow A 0 = {[]}"
| "pow A (Suc n) = conc A (pow A n)"

fun lang :: "rexp \<Rightarrow> string set" where
  "lang Fail = {}"
| "lang Eps = {[]}"
| "lang (Lit a) = {[a]}"
| "lang Digit = {[c] | c. c \<in> set ''0123456789''}"
| "lang (Class neg items) = {[c] | c. list_ex (in_item c) items \<noteq> neg}"
| "lang (Seq r s) = conc (lang r) (lang s)"
| "lang (Alt r s) = lang r \<union> lang s"
| "lang (Plus r) = (\<Union>n. pow (lang r) (Suc n))"
| "lang (Repeat n r) = pow (lang r) n"
| "lang (Group r) = lang r"

definition tails :: "char \<Rightarrow> string set \<Rightarrow> string set" where
  "tails c A = {w. c # w \<in> A}"

text \<open>
  The patterns of the source. A backslash cannot stand in a string literal here, so it
  is spliced in; in the Python literals \<^verbatim>\<open>"\."\<close>, \<^verbatim>\<open>"\/"\<close> and \<^verbatim>\<open>"\d"\<close> are no escape
  sequences, and the backslash stays in the string.
\<close>

definition backslash :: string where
  "backslash = [CHR 0x5C]"

definition EmailConverter_regex :: string where
  "EmailConverter_regex = ''[^@ ]+@[^@ ]+'' @ backslash @ ''.[^@ ]+''"

definition IPv4Converter_regex :: string where
  "IPv4Converter_regex =
     ''(([0-9]|[1-9][0-9]|1[0-9]{2}|2[0-4][0-9]|25[0-5])'' @ backslash
     @ ''.){3}([0-9]|[1-9][0-9]|1[0-9]{2}|2[0-4][0-9]|25[0-5])''"

definition CidrConverter_regex :: string where
  "CidrConverter_regex =
     ''(([0-9]|[1-9][0-9]|1[0-9]{2}|2[0-4][0-9]|25[0-5])'' @ backslash
     @ ''.){3}([0-9]|[1-9][0-9]|1[0-9]{2}|2[0-4][0-9]|25[0-5])('' @ backslash
     @ ''/([1-2]'' @ backslash @ ''d|3[0-2]|'' @ backslash @ ''d))''"

text \<open>
  What the IPv4 and CIDR patterns are meant to accept: \<open>dec n\<close> is the decimal numeral
  of \<open>n\<close> with no leading zero, an octet is the numeral of a number up to 255 and a
  prefix length the numeral of a number up to 32.
\<close>

definition digit_char :: "nat \<Rightarrow> char" where
  "digit_char n = ''0123456789'' ! n"

fun dec :: "nat \<Rightarrow> string" where
  "dec n = (if n < 10 then [digit_char n] else dec (n div 10) @ [digit_char (n mod 10)])"

declare dec.simps [simp del]

definition octet :: "string \<Rightarrow> bool" where
  "octet w = (\<exists>n \<le> 255. w = dec n)"

definition prefix_length :: "string \<Rightarrow> bool" where
  "prefix_length w = (\<exists>n \<le> 32. w = dec n)"

text \<open>
  The words of an expression with no \<^verbatim>\<open>+\<close> and no negated class, listed in the order of
  its alternatives; and the expressions the octet and the prefix length of the two
  patterns compile to.
\<close>

fun item_chars :: "cset_item \<Rightarrow> char list" where
  "item_chars (Single a) = [a]"
| "item_chars (Range a b) = map char_of [of_char a ..< Suc (of_char b) :: nat]"

fun words_pow :: "string list \<Rightarrow> nat \<Rightarrow> string list" where
  "words_pow ws 0 = [[]]"
| "words_pow ws (Suc n) = concat (map (\<lambda>u. map (\<lambda>v. u @ v) (words_pow ws n)) ws)"

fun words :: "rexp \<Rightarrow> string list" where
  "words Fail = []"
| "words Eps = [[]]"
| "words (Lit a) = [[a]]"
| "words Digit = map (\<lambda>c. [c]) ''0123456789''"
| "words (Class neg items) = map (\<lambda>c. [c]) (concat (map item_chars items))"
| "words (Seq r s) = concat (map (\<lambda>u. map (\<lambda>v. u @ v) (words s)) (words r))"
| "words (Alt r s) = words r @ words s"
| "words (Plus r) = []"
| "words (Repeat n r) = words_pow (words r) n"
| "words (Group r) = words r"

fun finite_rexp :: "rexp \<Rightarrow> bool" where
  "finite_rexp (Class neg items) = (\<not> neg)"
| "finite_rexp (Seq r s) = (finite_rexp r \<and> finite_rexp s)"
| "finite_rexp (Alt r s) = (finite_rexp r \<and> finite_rexp s)"
| "finite_rexp (Plus r) = False"
| "finite_rexp (Repeat n r) = finite_rexp r"
| "finite_rexp (Group r) = finite_rexp r"
| "finite_rexp r = True"

definition octet_rexp :: rexp where
  "octet_rexp =
     Group (Alt (Class False [Range (CHR ''0'') (CHR ''9'')])
           (Alt (Seq (Class False [Range (CHR ''1'') (CHR ''9'')])
                     (Class False [Range (CHR ''0'') (CHR ''9'')]))
           (Alt (Seq (Lit (CHR ''1'')) (Repeat 2 (Class False [Range (CHR ''0'') (CHR ''9'')])))
           (Alt (Seq (Lit (CHR ''2''))
                     (Seq (Class False [Range (CHR ''0'') (CHR ''4'')])
                          (Class False [Range (CHR ''0'') (CHR ''9'')])))
                (Seq (Lit (CHR ''2''))
                     (Seq (Lit (CHR ''5'')) (Class False [Range (CHR ''0'') (CHR ''5'')])))))))"

definition prefix_rexp :: rexp where
  "prefix_rexp =
     Group (Alt (Seq (Class False [Range (CHR ''1'') (CHR ''2'')]) Digit)
           (Alt (Seq (Lit (CHR ''3'')) (Class False [Range (CHR ''0'') (CHR ''2'')]))
                Digit))"

text \<open>
  What the email pattern asks of each of its three parts: at least one character, none
  of them \<^verbatim>\<open>@\<close> or a space.
\<close>

definition local_part :: "string \<Rightarrow> bool" where
  "local_part w = (w \<noteq> [] \<and> list_all (\<lambda>c. c \<noteq> CHR ''@'' \<and> c \<noteq> CHR '' '') w)"

section \<open>An example application\<close>

text \<open>
  Concrete values for the examples below; the theorems hold for every application and
  resource. The response class of the example application is Flask's, a subclass of
  \<^verbatim>\<open>BaseResponse\<close>. \<open>example_dumps\<close> is its \<^verbatim>\<open>json.dumps\<close> as far as the examples call it:
  the JSON text of \<^verbatim>\<open>None\<close>, of a boolean and of the empty list and dictionary, and the
  \<^verbatim>\<open>TypeError\<close> of the encoder on an object it has no rule for.
\<close>

fun example_dumps :: "pyval \<Rightarrow> pyerror + string" where
  "example_dumps PNone = Inr ''null''"
| "example_dumps (PBool b) = Inr (if b then ''true'' else ''false'')"
| "example_dumps (PList []) = Inr ''[]''"
| "example_dumps (PDict []) = Inr ''{}''"
| "example_dumps v = Inl (TypeError ''is not JSON serializable'')"

definition example_app :: flask_app where
  "example_app =
     \<lparr> response_class = ''flask.wrappers.Response'',
       response_class_bases =
         [''werkzeug.wrappers.Response'', ''werkzeug.wrappers.BaseResponse'', ''object''],
       json_dumps = example_dumps,
       JSONEncoder_default = (\<lambda>v. Inl (TypeError ''is not JSON serializable'')) \<rparr>"

definition flask_response :: "response \<Rightarrow> pyval" where
  "flask_response r =
     PObject ''flask.wrappers.Response''
       [''werkzeug.wrappers.Response'', ''werkzeug.wrappers.BaseResponse'', ''object'']
       Absent (ResponseData r)"

definition created :: response where
  "created = \<lparr> response_body = Some ''made'', response_code = 201,
               response_type = Some ''text/plain'', response_hdrs = [] \<rparr>"

definition base_response :: "response \<Rightarrow> pyval" where
  "base_response r = PObject ''werkzeug.wrappers.BaseResponse'' [''object''] Absent (ResponseData r)"

text \<open>
  \<open>WidgetAPI\<close> writes nothing to its instance: \<^verbatim>\<open>get\<close> returns the empty list, \<^verbatim>\<open>put\<close>
  and \<^verbatim>\<open>delete\<close> return \<^verbatim>\<open>None\<close>, \<^verbatim>\<open>post\<close> returns a response made with Flask and
  \<^verbatim>\<open>patch\<close> a bare \<^verbatim>\<open>BaseResponse\<close>. The \<^verbatim>\<open>get\<close> of \<open>AcceptedAPI\<close> sets the status
  override to 202 and returns \<^verbatim>\<open>None\<close>. \<open>FailingAPI\<close> has no \<^verbatim>\<open>patch\<close>; its hook and its
  other handlers raise after writing the status override.
\<close>

definition WidgetAPI :: resource where
  "WidgetAPI =
     \<lparr> getattr_handler =
         (\<lambda>name. if name = ''get'' then Some (\<lambda>self args. (Inr (PList []), self))
                 else if name = ''put'' \<or> name = ''delete'' then Some (\<lambda>self args. (Inr PNone, self))
                 else if name = ''post'' then Some (\<lambda>self args. (Inr (flask_response created), self))
                 else if name = ''patch'' then Some (\<lambda>self args. (Inr (base_response created), self))
                 else None),
       dispatch_init_of = dispatch_init \<rparr>"

definition AcceptedAPI :: resource where
  "AcceptedAPI =
     \<lparr> getattr_handler =
         (\<lambda>name. if name = ''get''
                 then Some (\<lambda>self args. (Inr PNone, self\<lparr> response_status := Some 202 \<rparr>))
                 else None),
       dispatch_init_of = dispatch_init \<rparr>"


text \<open>
  Values for the encoder: a built-in set, an instance of a subclass of \<^verbatim>\<open>set\<close>, a
  \<^verbatim>\<open>frozenset\<close>, an Arrow timestamp, and an object of a class that defines
  \<^verbatim>\<open>json_serializer\<close>.
\<close>

definition a_set :: pyval where
  "a_set = PObject ''set'' [''object''] Absent (Members [PInt 1, PInt 2])"

definition a_set_subclass :: pyval where
  "a_set_subclass = PObject ''OrderedSet'' [''set'', ''object''] Absent (Members [PInt 1, PInt 2])"

definition a_frozenset :: pyval where
  "a_frozenset = PObject ''frozenset'' [''object''] Absent (Members [PInt 1, PInt 2])"

definition an_arrow :: pyval where
  "an_arrow = PObject ''arrow.arrow.Arrow'' [''object''] Absent
                (IsoFormat ''2014-01-01T00:00:00+00:00'')"

definition a_widget :: pyval where
  "a_widget = PObject ''Widget'' [''object''] (Callable (Inr (PDict [(''id'', PInt 7)]))) NoData"

definition http :: "string \<Rightarrow> string \<Rightarrow> string \<Rightarrow> request" where
  "http m d t = \<lparr> request_method = m, request_data = d, request_mimetype = t \<rparr>"

section \<open>The error type: properties\<close>

lemma map_of_dict_set: "map_of (dict_set d k v) = (map_of d)(k \<mapsto> v)"
  by (induction d) auto

text \<open>
  Claim C6. For every message \<open>m\<close> and optional payload \<open>p\<close>, \<^verbatim>\<open>to_dict()\<close> returns the
  mapping of \<open>p\<close> (the empty mapping when \<open>p\<close> is absent) with the key \<^verbatim>\<open>error_message\<close>
  bound to \<open>m\<close>, whatever \<open>p\<close> bound that key to; an error constructed with no status
  code, or with \<^verbatim>\<open>None\<close> for it, has status code 400. The last conjunct is the example
  \<^verbatim>\<open>Error("bad", 400, {"field": "name"}).to_dict()\<close>.
\<close>

theorem C6_to_dict:
  "map_of (to_dict (api_error_init m c p)) =
     (case p of None \<Rightarrow> Map.empty | Some d \<Rightarrow> map_of d)(''error_message'' \<mapsto> PStr m)
   \<and> status_code (api_error_init m None p) = 400
   \<and> to_dict (api_error_init ''bad'' (Some 400) (Some [(''field'', PStr ''name'')])) =
       [(''field'', PStr ''name''), (''error_message'', PStr ''bad'')]"
  by (simp add: to_dict_def api_error_init_def map_of_dict_set split: option.splits)

section \<open>The dispatcher: properties\<close>

lemma lower_methods:
  "lower ''GET'' = ''get''" "lower ''POST'' = ''post''" "lower ''PUT'' = ''put''"
  "lower ''PATCH'' = ''patch''" "lower ''DELETE'' = ''delete''" "lower ''HEAD'' = ''head''"
  by (simp_all add: lower_def lower_char_def)





lemma dispatch_request_run:
  assumes "\<not> (request_data req \<noteq> [] \<and> request_mimetype req \<noteq> ''application/json'')"
    and "lower (request_method req) \<in> set [''get'', ''put'', ''post'', ''delete'', ''patch'']"
    and "getattr_handler cls (lower (request_method req)) = Some h"
    and "dispatch_init_of cls (self\<lparr> self_method := Some (lower (request_method req)) \<rparr>) args
           = (Inr args1, self1)"
    and "h self1 args1 = (Inr out, self2)"
  shows "dispatch_request app req cls self args =
     (if py_type out = BaseResponse then (Inr out, self2)
      else if out = PNone then (build_response app req self2 None, self2)
      else (case json_dumps app out of
              Inl e \<Rightarrow> (Inl e, self2)
            | Inr s \<Rightarrow> (build_response app req self2 (Some s), self2)))"
  using assms unfolding dispatch_request_def Let_def
  by (auto split: sum.splits)

lemma class_default:
  assumes "response_status_defaults self = response_status_defaults API_class"
    and "m \<in> set [''get'', ''put'', ''post'', ''delete'', ''patch'']"
  shows "dict_get (response_status_defaults self) m = Inr (if m = ''put'' then 201 else 200)"
  using assms by (auto simp: dict_get_def API_class_def)

lemma build_response_eq:
  assumes "response_status_defaults self = response_status_defaults API_class"
    and "lower (request_method req) \<in> set [''get'', ''put'', ''post'', ''delete'', ''patch'']"
  shows "build_response app req self body =
     Inr (PObject (response_class app) (response_class_bases app) Absent
       (ResponseData
         \<lparr> response_body = body,
           response_code =
             (let dflt = (if lower (request_method req) = ''put'' then 201 else 200);
                  computed = (case response_status self of
                                None \<Rightarrow> dflt
                              | Some s \<Rightarrow> if s = 0 then dflt else s)
              in if computed = 200 \<and> \<not> truthy_body body then 204 else computed),
           response_type = (if truthy_body body then Some (response_mimetype self) else None),
           response_hdrs = response_headers self \<rparr>))"
proof (cases "response_status self")
  case None
  then show ?thesis
    using class_default[OF assms] by (simp add: build_response_def Let_def)
next
  case (Some s)
  then show ?thesis
    using class_default[OF assms] by (simp add: build_response_def Let_def)
qed

lemma dispatch_request_built:
  assumes "\<not> (request_data req \<noteq> [] \<and> request_mimetype req \<noteq> ''application/json'')"
    and "lower (request_method req) \<in> set [''get'', ''put'', ''post'', ''delete'', ''patch'']"
    and "getattr_handler cls (lower (request_method req)) = Some h"
    and "dispatch_init_of cls (self\<lparr> self_method := Some (lower (request_method req)) \<rparr>) args
           = (Inr args1, self1)"
    and "h self1 args1 = (Inr out, self2)"
    and "py_type out \<noteq> BaseResponse"
    and "body = (if out = PNone then None else Some doc)"
    and "out \<noteq> PNone \<longrightarrow> json_dumps app out = Inr doc"
    and "response_status_defaults self2 = response_status_defaults API_class"
  shows "dispatch_request app req cls self args =
     (Inr (PObject (response_class app) (response_class_bases app) Absent
       (ResponseData
         \<lparr> response_body = body,
           response_code =
             (let dflt = (if lower (request_method req) = ''put'' then 201 else 200);
                  computed = (case response_status self2 of
                                None \<Rightarrow> dflt
                              | Some s \<Rightarrow> if s = 0 then dflt else s)
              in if computed = 200 \<and> \<not> truthy_body body then 204 else computed),
           response_type = (if truthy_body body then Some (response_mimetype self2) else None),
           response_hdrs = response_headers self2 \<rparr>)), self2)"
proof -
  have run: "dispatch_request app req cls self args =
     (if out = PNone then (build_response app req self2 None, self2)
      else (build_response app req self2 (Some doc), self2))"
    using dispatch_request_run[OF assms(1-5), of app] assms(6,8) by simp
  show ?thesis
    unfolding run using assms(7) build_response_eq[OF assms(9) assms(2), of app]
    by simp
qed

text \<open>
  Claim C1. Every request that dispatch answers with a response of its own making gets one
  status. The override \<^verbatim>\<open>response_status\<close> is used when it is set, in the sense of the code's
  own test (\<^verbatim>\<open>self.response_status or ...\<close>: neither \<^verbatim>\<open>None\<close> nor 0); otherwise the default of
  the method is used, 201 for PUT and 200 for GET, POST, PATCH and DELETE. A status of 200
  computed this way becomes 204 when the body is empty, which is exactly when the handler
  returned \<^verbatim>\<open>None\<close>. So a handler that returns \<^verbatim>\<open>None\<close> with no override yields 204, and 201
  for PUT. The hypotheses say that the request passes validation, that the hook and the
  handler return, that the value is wrapped (it is not a \<^verbatim>\<open>BaseResponse\<close>, and
  \<^verbatim>\<open>json.dumps\<close> gives a JSON text for it, which is never empty), and that the table of
  defaults is the one of the class.
\<close>

theorem C1_response_status:
  assumes "\<not> (request_data req \<noteq> [] \<and> request_mimetype req \<noteq> ''application/json'')"
    and "lower (request_method req) \<in> set [''get'', ''put'', ''post'', ''delete'', ''patch'']"
    and "getattr_handler cls (lower (request_method req)) = Some h"
    and "dispatch_init_of cls (self\<lparr> self_method := Some (lower (request_method req)) \<rparr>) args
           = (Inr args1, self1)"
    and "h self1 args1 = (Inr out, self2)"
    and "py_type out \<noteq> BaseResponse"
    and "out \<noteq> PNone \<longrightarrow> json_dumps app out = Inr doc \<and> doc \<noteq> []"
    and "response_status_defaults self2 = response_status_defaults API_class"
  shows "\<exists>r. dispatch_request app req cls self args =
            (Inr (PObject (response_class app) (response_class_bases app) Absent (ResponseData r)),
             self2)
         \<and> (response_body r = None \<longleftrightarrow> out = PNone)
         \<and> response_code r =
             (let dflt = (if lower (request_method req) = ''put'' then 201 else 200);
                  computed = (case response_status self2 of
                                None \<Rightarrow> dflt
                              | Some s \<Rightarrow> if s = 0 then dflt else s)
              in if computed = 200 \<and> out = PNone then 204 else computed)
         \<and> (out = PNone \<and> response_status self2 = None \<longrightarrow>
              response_code r = (if lower (request_method req) = ''put'' then 201 else 204))"
proof -
  define body where "body = (if out = PNone then None else Some doc)"
  have empty: "\<not> truthy_body body \<longleftrightarrow> out = PNone"
    using assms(7) by (simp add: body_def)
  have dumps: "out \<noteq> PNone \<longrightarrow> json_dumps app out = Inr doc"
    using assms(7) by simp
  note built = dispatch_request_built[OF assms(1-6) body_def dumps assms(8)]
  show ?thesis
    unfolding built using empty by (auto simp: body_def Let_def)
qed


text \<open>
  \<^verbatim>\<open>PUT\<close> and \<^verbatim>\<open>DELETE\<close> handlers that return \<^verbatim>\<open>None\<close> give 201 and 204; a \<^verbatim>\<open>GET\<close>
  handler that sets the override to 202 and returns \<^verbatim>\<open>None\<close> gives 202.
\<close>

theorem C1_response_status_witness:
  "(\<exists>r. dispatch_request example_app (http ''PUT'' [] []) WidgetAPI API_class ([], []) =
          (Inr (PObject ''flask.wrappers.Response''
                  [''werkzeug.wrappers.Response'', ''werkzeug.wrappers.BaseResponse'', ''object'']
                  Absent (ResponseData r)),
           API_class\<lparr> self_method := Some ''put'' \<rparr>)
        \<and> response_body r = None \<and> response_code r = 201)
   \<and> (\<exists>r. dispatch_request example_app (http ''DELETE'' [] []) WidgetAPI API_class ([], []) =
          (Inr (PObject ''flask.wrappers.Response''
                  [''werkzeug.wrappers.Response'', ''werkzeug.wrappers.BaseResponse'', ''object'']
                  Absent (ResponseData r)),
           API_class\<lparr> self_method := Some ''delete'' \<rparr>)
        \<and> response_body r = None \<and> response_code r = 204)
   \<and> (\<exists>r. dispatch_request example_app (http ''GET'' [] []) AcceptedAPI API_class ([], []) =
          (Inr (PObject ''flask.wrappers.Response''
                  [''werkzeug.wrappers.Response'', ''werkzeug.wrappers.BaseResponse'', ''object'']
                  Absent (ResponseData r)),
           API_class\<lparr> self_method := Some ''get'', response_status := Some 202 \<rparr>)
        \<and> response_body r = None \<and> response_code r = 202)"
  using
    C1_response_status [where req = "http ''PUT'' [] []" and cls = WidgetAPI
      and h = "\<lambda>self args. (Inr PNone, self)" and self = API_class and args = "([], [])"
      and ?args1.0 = "([], [])" and ?self1.0 = "API_class\<lparr> self_method := Some ''put'' \<rparr>"
      and out = PNone and ?self2.0 = "API_class\<lparr> self_method := Some ''put'' \<rparr>"
      and app = example_app and doc = "[]"]
    C1_response_status [where req = "http ''DELETE'' [] []" and cls = WidgetAPI
      and h = "\<lambda>self args. (Inr PNone, self)" and self = API_class and args = "([], [])"
      and ?args1.0 = "([], [])" and ?self1.0 = "API_class\<lparr> self_method := Some ''delete'' \<rparr>"
      and out = PNone and ?self2.0 = "API_class\<lparr> self_method := Some ''delete'' \<rparr>"
      and app = example_app and doc = "[]"]
    C1_response_status [where req = "http ''GET'' [] []" and cls = AcceptedAPI
      and h = "\<lambda>self args. (Inr PNone, self\<lparr> response_status := Some 202 \<rparr>)"
      and self = API_class and args = "([], [])"
      and ?args1.0 = "([], [])" and ?self1.0 = "API_class\<lparr> self_method := Some ''get'' \<rparr>"
      and out = PNone
      and ?self2.0 = "API_class\<lparr> self_method := Some ''get'', response_status := Some 202 \<rparr>"
      and app = example_app and doc = "[]"]
  by (simp add: http_def lower_methods WidgetAPI_def AcceptedAPI_def dispatch_init_def
      BaseResponse_def example_app_def API_class_def)









section \<open>The route registrar: properties\<close>

text \<open>
  Claim C4 says that registering at \<^verbatim>\<open>/widgets\<close> with primary key \<^verbatim>\<open>id\<close> of type \<^verbatim>\<open>int\<close>
  puts the item routes at \<^verbatim>\<open>/widgets/<int:id>\<close>. The format \<^verbatim>\<open>'%s<%s:%s>'\<close> has no slash:
  the item routes are at \<^verbatim>\<open>/widgets<int:id>\<close>, and no route is at \<^verbatim>\<open>/widgets/<int:id>\<close>.
\<close>

theorem C4_counterexample:
  "(''GET'', ''/widgets/<int:id>'')
     \<notin> set (routes (register_api [] ''WidgetAPI'' ''widgets'' ''/widgets'' ''id'' ''int''))
   \<and> (''GET'', ''/widgets<int:id>'')
     \<in> set (routes (register_api [] ''WidgetAPI'' ''widgets'' ''/widgets'' ''id'' ''int''))"
  by (simp add: routes_def register_api_def add_url_rule_def as_view_def Let_def)

text \<open>
  Claim C4, amended. \<^verbatim>\<open>register_api\<close> adds three rules to the blueprint: the base URL for
  \<^verbatim>\<open>GET\<close>, with the primary key defaulting to \<^verbatim>\<open>None\<close>; the base URL for \<^verbatim>\<open>POST\<close>, with no
  defaults; and, for \<^verbatim>\<open>GET\<close>, \<^verbatim>\<open>PUT\<close> and \<^verbatim>\<open>DELETE\<close>, the base URL followed at once by the
  typed segment \<^verbatim>\<open><pk_type:pk>\<close>. At \<^verbatim>\<open>/widgets\<close> these are exactly five routes, the item
  routes at \<^verbatim>\<open>/widgets<int:id>\<close>; the item URL is \<^verbatim>\<open>/widgets/<int:id>\<close> when the base URL is
  given with its trailing slash.
\<close>

theorem C4_register_api:
  "register_api blueprint view endpoint url pk pk_type =
     blueprint @
     [\<lparr> rule = url, defaults = Some [(pk, PNone)], view_func = as_view view endpoint,
        methods = [''GET''] \<rparr>,
      \<lparr> rule = url, defaults = None, view_func = as_view view endpoint,
        methods = [''POST''] \<rparr>,
      \<lparr> rule = url @ ''<'' @ pk_type @ '':'' @ pk @ ''>'', defaults = None,
        view_func = as_view view endpoint, methods = [''GET'', ''PUT'', ''DELETE''] \<rparr>]
   \<and> routes (register_api [] ''WidgetAPI'' ''widgets'' ''/widgets'' ''id'' ''int'') =
       [(''GET'', ''/widgets''), (''POST'', ''/widgets''),
        (''GET'', ''/widgets<int:id>''), (''PUT'', ''/widgets<int:id>''),
        (''DELETE'', ''/widgets<int:id>'')]
   \<and> routes (register_api [] ''WidgetAPI'' ''widgets'' ''/widgets/'' ''id'' ''int'') =
       [(''GET'', ''/widgets/''), (''POST'', ''/widgets/''),
        (''GET'', ''/widgets/<int:id>''), (''PUT'', ''/widgets/<int:id>''),
        (''DELETE'', ''/widgets/<int:id>'')]"
  by (simp add: routes_def register_api_def add_url_rule_def Let_def)

section \<open>The JSON encoder: properties\<close>

text \<open>
  Claim C7 says that a set-like collection with no \<^verbatim>\<open>json_serializer\<close> is encoded as the
  list of its members. The code tests \<^verbatim>\<open>type(obj) is set\<close>: an instance of a subclass of
  \<^verbatim>\<open>set\<close>, whose members \<^verbatim>\<open>list\<close> would give, falls through to the base class and raises.
\<close>

theorem C7_counterexample:
  "isinstance a_set_subclass ''set''
   \<and> \<not> callable (json_serializer_attr a_set_subclass)
   \<and> py_list a_set_subclass = Inr (PList [PInt 1, PInt 2])
   \<and> JSONEncoder_default example_app a_set_subclass = Inl (TypeError ''is not JSON serializable'')
   \<and> CustomJSONEncoder_default example_app a_set_subclass =
       Inl (TypeError ''is not JSON serializable'')"
  by (simp add: a_set_subclass_def CustomJSONEncoder_default_def example_app_def)

text \<open>
  Claim C7, amended. \<^verbatim>\<open>CustomJSONEncoder.default\<close> applies this precedence. A value with a
  callable \<^verbatim>\<open>json_serializer\<close> attribute is encoded as what the call returns. Otherwise a
  value whose class is exactly the built-in \<^verbatim>\<open>set\<close> is encoded as the list of its members.
  Otherwise a value whose class is exactly \<^verbatim>\<open>arrow.arrow.Arrow\<close> is encoded as its
  \<^verbatim>\<open>isoformat()\<close> string. Every other value goes to the \<^verbatim>\<open>default\<close> of the base encoder,
  so that a value the base encoder cannot serialize raises its \<^verbatim>\<open>TypeError\<close>.
\<close>

theorem C7_default_precedence:
  "(json_serializer_attr v = Callable (Inr r) \<longrightarrow> CustomJSONEncoder_default app v = Inr r)
   \<and> (\<not> callable (json_serializer_attr v) \<and> py_type v = ''set'' \<and> py_data v = Members xs \<longrightarrow>
        CustomJSONEncoder_default app v = Inr (PList xs))
   \<and> (\<not> callable (json_serializer_attr v) \<and> py_type v = ''arrow.arrow.Arrow''
        \<and> py_data v = IsoFormat s \<longrightarrow>
        CustomJSONEncoder_default app v = Inr (PStr s))
   \<and> (\<not> callable (json_serializer_attr v) \<and> py_type v \<noteq> ''set''
        \<and> py_type v \<noteq> ''arrow.arrow.Arrow'' \<and> JSONEncoder_default app v = Inl (TypeError msg) \<longrightarrow>
        CustomJSONEncoder_default app v = Inl (TypeError msg))"
  by (simp add: CustomJSONEncoder_default_def)

text \<open>One value for each of the four rules.\<close>

theorem C7_default_precedence_witness:
  "CustomJSONEncoder_default example_app a_widget = Inr (PDict [(''id'', PInt 7)])
   \<and> CustomJSONEncoder_default example_app a_set = Inr (PList [PInt 1, PInt 2])
   \<and> CustomJSONEncoder_default example_app an_arrow = Inr (PStr ''2014-01-01T00:00:00+00:00'')
   \<and> CustomJSONEncoder_default example_app (PObject ''Gadget'' [''object''] Absent NoData) =
       Inl (TypeError ''is not JSON serializable'')"
  using C7_default_precedence [of a_widget "PDict [(''id'', PInt 7)]" example_app]
    C7_default_precedence [of a_set _ example_app "[PInt 1, PInt 2]"]
    C7_default_precedence [of an_arrow _ example_app _ "''2014-01-01T00:00:00+00:00''"]
    C7_default_precedence [of "PObject ''Gadget'' [''object''] Absent NoData" _ example_app _ _
      "''is not JSON serializable''"]
  by (simp add: a_widget_def a_set_def an_arrow_def example_app_def)

text \<open>
  Claim C10. The set rule applies to the exact class \<^verbatim>\<open>set\<close> only. Every value whose class
  is not \<^verbatim>\<open>set\<close>, so every instance of a proper subclass of \<^verbatim>\<open>set\<close> and every
  \<^verbatim>\<open>frozenset\<close>, that has no callable \<^verbatim>\<open>json_serializer\<close> and is no Arrow timestamp is
  handed to the base encoder; when that cannot serialize it, the encoder raises the
  \<^verbatim>\<open>TypeError\<close> and produces no list.
\<close>

theorem C10_exact_set_only:
  assumes "py_type v \<noteq> ''set''"
    and "\<not> callable (json_serializer_attr v)"
    and "py_type v \<noteq> ''arrow.arrow.Arrow''"
    and "JSONEncoder_default app v = Inl (TypeError msg)"
  shows "CustomJSONEncoder_default app v = Inl (TypeError msg)
         \<and> (\<forall>xs. CustomJSONEncoder_default app v \<noteq> Inr (PList xs))"
  using assms by (simp add: CustomJSONEncoder_default_def)

text \<open>An instance of a subclass of \<^verbatim>\<open>set\<close>, and a \<^verbatim>\<open>frozenset\<close>.\<close>

theorem C10_exact_set_only_witness:
  "isinstance a_set_subclass ''set'' \<and> py_type a_set_subclass \<noteq> ''set''
   \<and> CustomJSONEncoder_default example_app a_set_subclass =
       Inl (TypeError ''is not JSON serializable'')
   \<and> CustomJSONEncoder_default example_app a_frozenset =
       Inl (TypeError ''is not JSON serializable'')"
  using C10_exact_set_only [of a_set_subclass example_app "''is not JSON serializable''"]
    C10_exact_set_only [of a_frozenset example_app "''is not JSON serializable''"]
  by (simp add: a_set_subclass_def a_frozenset_def example_app_def)

section \<open>The URL converters: properties\<close>

text \<open>
  The matcher decides membership in the language of the expression, so that a pattern
  matches the whole of a string exactly when the string is in the language of what the
  pattern compiles to.
\<close>

lemma nil_in_conc: "[] \<in> conc A B \<longleftrightarrow> [] \<in> A \<and> [] \<in> B"
  by (auto simp: conc_def)

lemma nil_in_pow: "[] \<in> pow A n \<longleftrightarrow> n = 0 \<or> [] \<in> A"
  by (induction n) (auto simp: nil_in_conc)

lemma nullable_lang: "nullable r \<longleftrightarrow> [] \<in> lang r"
  by (induction r) (auto simp: nil_in_conc nil_in_pow)

lemma tails_conc:
  "tails c (conc A B) = conc (tails c A) B \<union> (if [] \<in> A then tails c B else {})"
proof (intro set_eqI iffI)
  fix w assume "w \<in> tails c (conc A B)"
  then obtain u v where uv: "c # w = u @ v" "u \<in> A" "v \<in> B"
    by (auto simp: tails_def conc_def)
  show "w \<in> conc (tails c A) B \<union> (if [] \<in> A then tails c B else {})"
  proof (cases u)
    case Nil
    with uv show ?thesis by (auto simp: tails_def)
  next
    case (Cons a u')
    with uv have "w = u' @ v" "c # u' \<in> A" by auto
    with uv(3) show ?thesis by (auto simp: tails_def conc_def)
  qed
next
  fix w assume "w \<in> conc (tails c A) B \<union> (if [] \<in> A then tails c B else {})"
  then consider "w \<in> conc (tails c A) B" | "[] \<in> A" "w \<in> tails c B"
    by (auto split: if_splits)
  then show "w \<in> tails c (conc A B)"
  proof cases
    case 1
    then obtain u v where "w = u @ v" "c # u \<in> A" "v \<in> B"
      by (auto simp: tails_def conc_def)
    then have "c # w = (c # u) @ v" by simp
    with \<open>c # u \<in> A\<close> \<open>v \<in> B\<close> show ?thesis
      unfolding tails_def conc_def by blast
  next
    case 2
    then have "c # w = [] @ (c # w)" "c # w \<in> B" by (auto simp: tails_def)
    with 2(1) show ?thesis
      unfolding tails_def conc_def by blast
  qed
qed

lemma tails_pow_star:
  "c # w \<in> pow A n \<Longrightarrow> \<exists>u v k. w = u @ v \<and> c # u \<in> A \<and> v \<in> pow A k"
proof (induction n)
  case 0
  then show ?case by simp
next
  case (Suc n)
  then have "w \<in> tails c (conc A (pow A n))" by (simp add: tails_def)
  then have "w \<in> conc (tails c A) (pow A n) \<union> (if [] \<in> A then tails c (pow A n) else {})"
    by (simp only: tails_conc)
  then have "w \<in> conc (tails c A) (pow A n) \<or> c # w \<in> pow A n"
    by (auto simp: tails_def split: if_splits)
  then show ?case
  proof
    assume "w \<in> conc (tails c A) (pow A n)"
    then show ?thesis by (auto simp: conc_def tails_def)
  next
    assume "c # w \<in> pow A n"
    then show ?thesis by (rule Suc.IH)
  qed
qed

lemma tails_plus:
  "tails c (\<Union>n. pow A (Suc n)) = conc (tails c A) ({[]} \<union> (\<Union>n. pow A (Suc n)))"
proof (intro set_eqI iffI)
  fix w assume "w \<in> tails c (\<Union>n. pow A (Suc n))"
  then obtain n where "c # w \<in> pow A (Suc n)" by (auto simp: tails_def)
  from tails_pow_star[OF this] obtain u v k
    where uv: "w = u @ v" "c # u \<in> A" "v \<in> pow A k" by blast
  have "v \<in> {[]} \<union> (\<Union>n. pow A (Suc n))"
  proof (cases k)
    case 0
    with uv(3) show ?thesis by simp
  next
    case (Suc j)
    with uv(3) show ?thesis by blast
  qed
  with uv(1,2) show "w \<in> conc (tails c A) ({[]} \<union> (\<Union>n. pow A (Suc n)))"
    unfolding conc_def tails_def by blast
next
  fix w assume "w \<in> conc (tails c A) ({[]} \<union> (\<Union>n. pow A (Suc n)))"
  then obtain u v where uv: "w = u @ v" "u \<in> tails c A" "v \<in> {[]} \<union> (\<Union>n. pow A (Suc n))"
    unfolding conc_def by blast
  from uv(3) have "v \<in> pow A 0 \<or> (\<exists>n. v \<in> pow A (Suc n))"
    by (simp del: pow.simps(2))
  then obtain k where "v \<in> pow A k"
    by blast
  moreover have "c # u \<in> A"
    using uv(2) by (simp add: tails_def)
  ultimately have "(c # u) @ v \<in> pow A (Suc k)"
    unfolding pow.simps conc_def by blast
  with uv(1) show "w \<in> tails c (\<Union>n. pow A (Suc n))"
    by (auto simp: tails_def)
qed

lemma lang_repeat_deriv:
  assumes "lang d = tails c (lang r)" and "[] \<in> lang r \<longleftrightarrow> nl"
  shows "lang (repeat_deriv d nl r n) = tails c (pow (lang r) n)"
proof (induction n)
  case 0
  then show ?case by (simp add: tails_def)
next
  case (Suc n)
  then show ?case
    using assms by (cases nl) (simp_all add: tails_conc)
qed

lemma lang_deriv: "lang (deriv c r) = tails c (lang r)"
proof (induction r)
  case (Seq r1 r2)
  then show ?case
    by (simp add: tails_conc nullable_lang)
next
  case (Plus r)
  then show ?case
    by (simp add: tails_plus del: pow.simps)
next
  case (Repeat n r)
  then show ?case
    by (simp add: lang_repeat_deriv nullable_lang)
qed (auto simp: tails_def)

lemma fullmatch_rexp_lang: "fullmatch_rexp r s \<longleftrightarrow> s \<in> lang r"
  unfolding fullmatch_rexp_def
proof (induction s arbitrary: r)
  case Nil
  then show ?case by (simp add: nullable_lang)
next
  case (Cons c s)
  then show ?case by (simp add: lang_deriv tails_def)
qed

lemma re_fullmatch_lang:
  "re_fullmatch p s = Some b \<Longrightarrow> \<exists>r. re_compile p = Some r \<and> (b \<longleftrightarrow> s \<in> lang r)"
  by (auto simp: re_fullmatch_def fullmatch_rexp_lang)

lemma pow_chars:
  "pow {[c] | c. P c} n = {w. length w = n \<and> list_all P w}"
proof (induction n)
  case 0
  then show ?case by auto
next
  case (Suc n)
  show ?case
  proof (intro set_eqI iffI)
    fix w assume "w \<in> pow {[c] | c. P c} (Suc n)"
    then obtain c v where "w = [c] @ v" "P c" "v \<in> pow {[c] | c. P c} n"
      unfolding pow.simps conc_def by blast
    then show "w \<in> {w. length w = Suc n \<and> list_all P w}"
      using Suc.IH by simp
  next
    fix w assume "w \<in> {w. length w = Suc n \<and> list_all P w}"
    then obtain c v where w: "w = c # v" "length v = n" "P c" "list_all P v"
      by (cases w) auto
    then have "v \<in> pow {[c] | c. P c} n"
      using Suc.IH by simp
    with w have "[c] @ v \<in> conc {[c] | c. P c} (pow {[c] | c. P c} n)"
      unfolding conc_def by blast
    with w(1) show "w \<in> pow {[c] | c. P c} (Suc n)"
      by simp
  qed
qed

lemma lang_Plus_Class:
  "lang (Plus (Class neg items)) =
     {w. w \<noteq> [] \<and> list_all (\<lambda>c. list_ex (in_item c) items \<noteq> neg) w}"
proof -
  have "lang (Plus (Class neg items)) =
          (\<Union>n. {w. length w = Suc n \<and> list_all (\<lambda>c. list_ex (in_item c) items \<noteq> neg) w})"
    by (simp only: lang.simps pow_chars)
  also have "\<dots> = {w. w \<noteq> [] \<and> list_all (\<lambda>c. list_ex (in_item c) items \<noteq> neg) w}"
  proof (intro set_eqI iffI)
    fix w assume "w \<in> (\<Union>n. {w. length w = Suc n \<and> list_all (\<lambda>c. list_ex (in_item c) items \<noteq> neg) w})"
    then show "w \<in> {w. w \<noteq> [] \<and> list_all (\<lambda>c. list_ex (in_item c) items \<noteq> neg) w}"
      by auto
  next
    fix w assume "w \<in> {w. w \<noteq> [] \<and> list_all (\<lambda>c. list_ex (in_item c) items \<noteq> neg) w}"
    then have "length w = Suc (length w - 1)" "list_all (\<lambda>c. list_ex (in_item c) items \<noteq> neg) w"
      by (cases w; simp)+
    then show "w \<in> (\<Union>n. {w. length w = Suc n \<and> list_all (\<lambda>c. list_ex (in_item c) items \<noteq> neg) w})"
      by blast
  qed
  finally show ?thesis .
qed

lemma EmailConverter_compiled:
  "re_compile EmailConverter_regex =
     Some (Seq (Plus (Class True [Single (CHR ''@''), Single (CHR '' '')]))
            (Seq (Lit (CHR ''@''))
              (Seq (Plus (Class True [Single (CHR ''@''), Single (CHR '' '')]))
                (Seq (Lit (CHR ''.''))
                  (Plus (Class True [Single (CHR ''@''), Single (CHR '' '')]))))))"
  by code_simp

text \<open>
  The email pattern matches the whole of a string exactly when the string is three such
  parts, with \<^verbatim>\<open>@\<close> between the first two and a dot between the last two.
\<close>

lemma EmailConverter_matches:
  "re_fullmatch EmailConverter_regex s =
     Some (\<exists>a b c. s = a @ ''@'' @ b @ ''.'' @ c \<and> local_part a \<and> local_part b \<and> local_part c)"
proof -
  let ?P = "{w. local_part w}"
  have part: "lang (Plus (Class True [Single (CHR ''@''), Single (CHR '' '')])) = ?P"
    unfolding lang_Plus_Class local_part_def
    by (rule arg_cong[where f = Collect]) (auto simp: fun_eq_iff list_all_iff)
  have "s \<in> conc ?P (conc {''@''} (conc ?P (conc {''.''} ?P))) \<longleftrightarrow>
        (\<exists>a b c. s = a @ ''@'' @ b @ ''.'' @ c \<and> local_part a \<and> local_part b \<and> local_part c)"
    (is "?L \<longleftrightarrow> ?R")
  proof
    assume ?L
    then obtain a t where 1: "s = a @ t" "local_part a" "t \<in> conc {''@''} (conc ?P (conc {''.''} ?P))"
      unfolding conc_def by blast
    from 1(3) obtain t' where 2: "t = ''@'' @ t'" "t' \<in> conc ?P (conc {''.''} ?P)"
      unfolding conc_def by blast
    from 2(2) obtain b u where 3: "t' = b @ u" "local_part b" "u \<in> conc {''.''} ?P"
      unfolding conc_def by blast
    from 3(3) obtain c where 4: "u = ''.'' @ c" "local_part c"
      unfolding conc_def by blast
    from 1 2 3 4 show ?R by blast
  next
    assume ?R
    then obtain a b c where r: "s = a @ ''@'' @ b @ ''.'' @ c" "local_part a" "local_part b" "local_part c"
      by blast
    have "''.'' @ c \<in> conc {''.''} ?P"
      using r(4) unfolding conc_def by blast
    with r(3) have "b @ ''.'' @ c \<in> conc ?P (conc {''.''} ?P)"
      unfolding conc_def by blast
    then have "''@'' @ b @ ''.'' @ c \<in> conc {''@''} (conc ?P (conc {''.''} ?P))"
      unfolding conc_def by blast
    with r(2) have "a @ ''@'' @ b @ ''.'' @ c \<in> conc ?P (conc {''@''} (conc ?P (conc {''.''} ?P)))"
      unfolding conc_def by blast
    with r(1) show ?L by simp
  qed
  then show ?thesis
    unfolding re_fullmatch_def EmailConverter_compiled option.map fullmatch_rexp_lang
    by (simp only: lang.simps(3,6) part)
qed

text \<open>
  The words listed for an expression without \<^verbatim>\<open>+\<close> and negated classes are its language.
  The octet of the two patterns lists the numerals of 0 to 255 and the prefix length
  those of 0 to 32, so the IPv4 pattern matches the whole of a string exactly when it is
  four octets separated by dots, and the CIDR pattern when a slash and a prefix length
  follow.
\<close>

lemma in_item_chars: "in_item c it \<longleftrightarrow> c \<in> set (item_chars it)"
proof (cases it)
  case (Single a)
  then show ?thesis by simp
next
  case (Range a b)
  have "(of_char a :: nat) \<le> of_char c \<and> (of_char c :: nat) \<le> of_char b
        \<longleftrightarrow> c \<in> char_of ` {of_char a ..< Suc (of_char b) :: nat}"
  proof
    assume "(of_char a :: nat) \<le> of_char c \<and> (of_char c :: nat) \<le> of_char b"
    then have "(of_char c :: nat) \<in> {of_char a ..< Suc (of_char b)}"
      by simp
    moreover have "c = char_of (of_char c :: nat)"
      by simp
    ultimately show "c \<in> char_of ` {of_char a ..< Suc (of_char b) :: nat}"
      by (rule rev_image_eqI)
  next
    assume "c \<in> char_of ` {of_char a ..< Suc (of_char b) :: nat}"
    then obtain n :: nat where n: "c = char_of n" "of_char a \<le> n" "n \<le> of_char b"
      by auto
    have "n < 256"
      using n(3) nat_of_char_less_256[of b] by linarith
    then have "(of_char c :: nat) = n"
      using n(1) by (simp add: of_char_of)
    with n(2,3) show "(of_char a :: nat) \<le> of_char c \<and> (of_char c :: nat) \<le> of_char b"
      by simp
  qed
  then show ?thesis
    by (simp only: Range in_item.simps item_chars.simps set_map set_upt)
qed

lemma set_concat_conc:
  "set (concat (map (\<lambda>u. map (\<lambda>v. u @ v) ys) xs)) = conc (set xs) (set ys)"
  by (auto simp: conc_def)

lemma set_words_pow: "set (words_pow ws n) = pow (set ws) n"
proof (induction n)
  case 0
  then show ?case by simp
next
  case (Suc n)
  then show ?case
    by (simp only: words_pow.simps pow.simps set_concat_conc)
qed

lemma set_singletons: "set (map (\<lambda>c. [c]) xs) = {[c] | c. c \<in> set xs}"
  by auto

lemma set_words: "finite_rexp r \<Longrightarrow> set (words r) = lang r"
proof (induction r)
  case Digit
  show ?case
    by (simp only: words.simps lang.simps set_singletons)
next
  case (Class neg items)
  then have "\<not> neg" by simp
  then have "lang (Class neg items) = {[c] | c. c \<in> set (concat (map item_chars items))}"
    by (auto simp: list_ex_iff in_item_chars)
  then show ?case
    by (simp only: words.simps set_singletons)
next
  case (Seq r1 r2)
  then show ?case
    by (simp only: words.simps lang.simps set_concat_conc finite_rexp.simps)
next
  case (Alt r1 r2)
  then show ?case by simp
next
  case (Repeat n r)
  then show ?case
    by (simp only: words.simps lang.simps set_words_pow finite_rexp.simps)
qed simp_all

lemma IPv4Converter_compiled:
  "re_compile IPv4Converter_regex =
     Some (Seq (Repeat 3 (Group (Seq octet_rexp (Lit (CHR ''.''))))) octet_rexp)"
  by code_simp

lemma CidrConverter_compiled:
  "re_compile CidrConverter_regex =
     Some (Seq (Repeat 3 (Group (Seq octet_rexp (Lit (CHR ''.'')))))
            (Seq octet_rexp (Group (Seq (Lit (CHR ''/'')) prefix_rexp))))"
  by code_simp

lemma words_octet: "words octet_rexp = map dec [0..<256]"
  by code_simp

lemma words_prefix: "words prefix_rexp = map dec ([10..<33] @ [0..<10])"
  by code_simp

lemma lang_octet: "lang octet_rexp = {w. octet w}"
proof -
  have "finite_rexp octet_rexp"
    by (simp add: octet_rexp_def)
  then have "lang octet_rexp = set (map dec [0..<256])"
    using set_words[of octet_rexp] by (simp only: words_octet)
  also have "\<dots> = dec ` {0..<256}"
    by (simp only: set_map set_upt)
  also have "\<dots> = dec ` {n. n \<le> 255}"
  proof -
    have "{0..<256::nat} = {n. n \<le> 255}" by auto
    then show ?thesis by (simp only:)
  qed
  also have "\<dots> = {w. octet w}"
    by (auto simp: octet_def)
  finally show ?thesis .
qed

lemma lang_prefix: "lang prefix_rexp = {w. prefix_length w}"
proof -
  have "finite_rexp prefix_rexp"
    by (simp add: prefix_rexp_def)
  then have "lang prefix_rexp = set (map dec ([10..<33] @ [0..<10]))"
    using set_words[of prefix_rexp] by (simp only: words_prefix)
  also have "\<dots> = dec ` ({10..<33} \<union> {0..<10})"
    by (simp only: map_append set_append set_map set_upt image_Un)
  also have "\<dots> = dec ` {n. n \<le> 32}"
  proof -
    have "{10..<33::nat} \<union> {0..<10} = {n. n \<le> 32}" by auto
    then show ?thesis by (simp only:)
  qed
  also have "\<dots> = {w. prefix_length w}"
    by (auto simp: prefix_length_def)
  finally show ?thesis .
qed

lemma conc_single_right: "w \<in> conc A {x} \<longleftrightarrow> (\<exists>u. w = u @ x \<and> u \<in> A)"
  by (auto simp: conc_def)

lemma conc_single_left: "w \<in> conc {x} B \<longleftrightarrow> (\<exists>v. w = x @ v \<and> v \<in> B)"
  by (auto simp: conc_def)

lemma conc_iff: "w \<in> conc A B \<longleftrightarrow> (\<exists>u v. w = u @ v \<and> u \<in> A \<and> v \<in> B)"
  by (auto simp: conc_def)

lemma three_dotted:
  "w \<in> pow (conc A {''.''}) 3 \<longleftrightarrow>
     (\<exists>a b c. w = a @ ''.'' @ b @ ''.'' @ c @ ''.'' \<and> a \<in> A \<and> b \<in> A \<and> c \<in> A)"
  (is "?L \<longleftrightarrow> ?R")
proof
  assume ?L
  then obtain x t where 1: "w = x @ t" "x \<in> conc A {''.''}" "t \<in> pow (conc A {''.''}) 2"
    by (auto simp: numeral_3_eq_3 numeral_2_eq_2 conc_iff[of w])
  from 1(3) obtain y u where 2: "t = y @ u" "y \<in> conc A {''.''}" "u \<in> pow (conc A {''.''}) 1"
    by (auto simp: numeral_2_eq_2 conc_iff[of t])
  from 2(3) obtain z where 3: "u = z" "z \<in> conc A {''.''}"
    by (auto simp: conc_iff[of u])
  from 1(2) 2(2) 3(2) obtain a b c where
    "x = a @ ''.''" "a \<in> A" "y = b @ ''.''" "b \<in> A" "z = c @ ''.''" "c \<in> A"
    unfolding conc_single_right by blast
  with 1(1) 2(1) 3(1) show ?R by auto
next
  assume ?R
  then obtain a b c where r: "w = a @ ''.'' @ b @ ''.'' @ c @ ''.''" "a \<in> A" "b \<in> A" "c \<in> A"
    by blast
  have d: "a @ ''.'' \<in> conc A {''.''}" "b @ ''.'' \<in> conc A {''.''}" "c @ ''.'' \<in> conc A {''.''}"
    using r(2-4) unfolding conc_single_right by blast+
  have "(c @ ''.'') @ [] \<in> pow (conc A {''.''}) (Suc 0)"
    using d(3) unfolding pow.simps conc_iff by blast
  then have "(b @ ''.'') @ (c @ ''.'') @ [] \<in> pow (conc A {''.''}) (Suc (Suc 0))"
    using d(2) unfolding pow.simps(2)[of _ "Suc 0"] conc_iff by blast
  then have "(a @ ''.'') @ (b @ ''.'') @ (c @ ''.'') @ [] \<in> pow (conc A {''.''}) (Suc (Suc (Suc 0)))"
    using d(1) unfolding pow.simps(2)[of _ "Suc (Suc 0)"] conc_iff by blast
  with r(1) show ?L
    by (simp add: numeral_3_eq_3)
qed

lemma IPv4Converter_matches:
  "re_fullmatch IPv4Converter_regex s =
     Some (\<exists>a b c d. s = a @ ''.'' @ b @ ''.'' @ c @ ''.'' @ d
             \<and> octet a \<and> octet b \<and> octet c \<and> octet d)"
proof -
  let ?O = "{w. octet w}"
  have "s \<in> conc (pow (conc ?O {''.''}) 3) ?O \<longleftrightarrow>
        (\<exists>a b c d. s = a @ ''.'' @ b @ ''.'' @ c @ ''.'' @ d
             \<and> octet a \<and> octet b \<and> octet c \<and> octet d)"
    (is "?L \<longleftrightarrow> ?R")
  proof
    assume ?L
    then obtain t d where 1: "s = t @ d" "t \<in> pow (conc ?O {''.''}) 3" "octet d"
      unfolding conc_iff[of s] by blast
    from 1(2) obtain a b c where "t = a @ ''.'' @ b @ ''.'' @ c @ ''.''" "octet a" "octet b" "octet c"
      unfolding three_dotted by blast
    with 1(1,3) show ?R by auto
  next
    assume ?R
    then obtain a b c d where r: "s = a @ ''.'' @ b @ ''.'' @ c @ ''.'' @ d"
        "octet a" "octet b" "octet c" "octet d"
      by blast
    have "a @ ''.'' @ b @ ''.'' @ c @ ''.'' \<in> pow (conc ?O {''.''}) 3"
      unfolding three_dotted using r(2-4) by blast
    with r(5) have "(a @ ''.'' @ b @ ''.'' @ c @ ''.'') @ d \<in> conc (pow (conc ?O {''.''}) 3) ?O"
      unfolding conc_iff by blast
    with r(1) show ?L by simp
  qed
  then show ?thesis
    unfolding re_fullmatch_def IPv4Converter_compiled option.map fullmatch_rexp_lang
    by (simp only: lang.simps lang_octet)
qed

lemma CidrConverter_matches:
  "re_fullmatch CidrConverter_regex s =
     Some (\<exists>a b c d p. s = a @ ''.'' @ b @ ''.'' @ c @ ''.'' @ d @ ''/'' @ p
             \<and> octet a \<and> octet b \<and> octet c \<and> octet d \<and> prefix_length p)"
proof -
  let ?O = "{w. octet w}"
  let ?P = "{w. prefix_length w}"
  have "s \<in> conc (pow (conc ?O {''.''}) 3) (conc ?O (conc {''/''} ?P)) \<longleftrightarrow>
        (\<exists>a b c d p. s = a @ ''.'' @ b @ ''.'' @ c @ ''.'' @ d @ ''/'' @ p
             \<and> octet a \<and> octet b \<and> octet c \<and> octet d \<and> prefix_length p)"
    (is "?L \<longleftrightarrow> ?R")
  proof
    assume ?L
    then obtain t u where 1: "s = t @ u" "t \<in> pow (conc ?O {''.''}) 3"
        "u \<in> conc ?O (conc {''/''} ?P)"
      unfolding conc_iff[of s] by blast
    from 1(3) obtain d v where 2: "u = d @ v" "octet d" "v \<in> conc {''/''} ?P"
      unfolding conc_iff[of u] by blast
    from 2(3) obtain p where 3: "v = ''/'' @ p" "prefix_length p"
      unfolding conc_single_left by blast
    from 1(2) obtain a b c where 4: "t = a @ ''.'' @ b @ ''.'' @ c @ ''.''" "octet a" "octet b" "octet c"
      unfolding three_dotted by blast
    have "s = a @ ''.'' @ b @ ''.'' @ c @ ''.'' @ d @ ''/'' @ p"
      using 1(1) 2(1) 3(1) 4(1) by simp
    with 2(2) 3(2) 4(2-4) show ?R by blast
  next
    assume ?R
    then obtain a b c d p where r: "s = a @ ''.'' @ b @ ''.'' @ c @ ''.'' @ d @ ''/'' @ p"
        "octet a" "octet b" "octet c" "octet d" "prefix_length p"
      by blast
    have t: "a @ ''.'' @ b @ ''.'' @ c @ ''.'' \<in> pow (conc ?O {''.''}) 3"
      unfolding three_dotted using r(2-4) by blast
    have "''/'' @ p \<in> conc {''/''} ?P"
      unfolding conc_single_left using r(6) by blast
    with r(5) have "d @ ''/'' @ p \<in> conc ?O (conc {''/''} ?P)"
      unfolding conc_iff[of "d @ ''/'' @ p"] by blast
    with t have "(a @ ''.'' @ b @ ''.'' @ c @ ''.'') @ d @ ''/'' @ p
        \<in> conc (pow (conc ?O {''.''}) 3) (conc ?O (conc {''/''} ?P))"
      unfolding conc_iff[of "(a @ ''.'' @ b @ ''.'' @ c @ ''.'') @ d @ ''/'' @ p"] by blast
    with r(1) show ?L by simp
  qed
  then show ?thesis
    unfolding re_fullmatch_def CidrConverter_compiled option.map fullmatch_rexp_lang
    by (simp only: lang.simps lang_octet lang_prefix)
qed

text \<open>
  Claim C8. The pattern of the email converter is the string
  \<^verbatim>\<open>[^@ ]+@[^@ ]+\.[^@ ]+\<close>: it matches the whole of a string exactly when the string is
  three parts, each at least one character other than \<^verbatim>\<open>@\<close> and the space, with \<^verbatim>\<open>@\<close>
  between the first two and a dot between the last two. The pattern of the IPv4
  converter matches the whole of \<^verbatim>\<open>192.168.1.1\<close> and of \<^verbatim>\<open>255.255.255.255\<close>, and in
  general exactly the strings of four dot-separated octets, each the numeral of a number
  from 0 to 255. The pattern of the CIDR converter matches the whole of \<^verbatim>\<open>10.0.0.0/8\<close>
  and not \<^verbatim>\<open>10.0.0.0/33\<close>, and in general exactly such an address followed by a slash
  and the numeral of a number from 0 to 32.
\<close>

theorem C8_converter_patterns:
  "EmailConverter_regex = ''[^@ ]+@[^@ ]+'' @ [CHR 0x5C] @ ''.[^@ ]+''
   \<and> re_fullmatch EmailConverter_regex s =
       Some (\<exists>a b c. s = a @ ''@'' @ b @ ''.'' @ c \<and> local_part a \<and> local_part b \<and> local_part c)
   \<and> re_fullmatch IPv4Converter_regex ''192.168.1.1'' = Some True
   \<and> re_fullmatch IPv4Converter_regex ''255.255.255.255'' = Some True
   \<and> re_fullmatch IPv4Converter_regex ''256.1.1.1'' = Some False
   \<and> re_fullmatch IPv4Converter_regex s =
       Some (\<exists>a b c d. s = a @ ''.'' @ b @ ''.'' @ c @ ''.'' @ d
               \<and> octet a \<and> octet b \<and> octet c \<and> octet d)
   \<and> re_fullmatch CidrConverter_regex ''10.0.0.0/8'' = Some True
   \<and> re_fullmatch CidrConverter_regex ''10.0.0.0/33'' = Some False
   \<and> re_fullmatch CidrConverter_regex s =
       Some (\<exists>a b c d p. s = a @ ''.'' @ b @ ''.'' @ c @ ''.'' @ d @ ''/'' @ p
               \<and> octet a \<and> octet b \<and> octet c \<and> octet d \<and> prefix_length p)"
proof (intro conjI)
  show "EmailConverter_regex = ''[^@ ]+@[^@ ]+'' @ [CHR 0x5C] @ ''.[^@ ]+''"
    by (simp add: EmailConverter_regex_def backslash_def)
  show "re_fullmatch IPv4Converter_regex ''192.168.1.1'' = Some True" by code_simp
  show "re_fullmatch IPv4Converter_regex ''255.255.255.255'' = Some True" by code_simp
  show "re_fullmatch IPv4Converter_regex ''256.1.1.1'' = Some False" by code_simp
  show "re_fullmatch CidrConverter_regex ''10.0.0.0/8'' = Some True" by code_simp
  show "re_fullmatch CidrConverter_regex ''10.0.0.0/33'' = Some False" by code_simp
qed (rule EmailConverter_matches IPv4Converter_matches CidrConverter_matches)+

end
